theory Spec2Isabelle
  imports Main
begin

section \<open>Error values\<close>

text \<open>
  Modelled from the spec: the error library is imported by the source
  (\<^verbatim>\<open>github.com/pkg/errors\<close> in uow.go and in the MongoDB runner, the standard
  \<^verbatim>\<open>errors\<close> package in the tests) and is not part of it. The spec asks that
  wrapping keeps the cause ("the underlying cause is wrapped, not replaced"), that the
  cause stays identifiable by error-chain inspection, and that the wrapping message is a
  context put in front of the cause's description.

  A Go \<^verbatim>\<open>error\<close> interface value is an \<open>error option\<close>, \<open>None\<close> being \<^verbatim>\<open>nil\<close>.
  \<^item> \<open>ErrorString a s\<close> is a leaf error of a comparable type (\<^verbatim>\<open>errors.New(s)\<close>, or any
    such error of a backend): \<open>a\<close> is its identity (the address of the allocated
    value), \<open>s\<close> its description.
  \<^item> \<open>Uncomparable s\<close> is a leaf error whose dynamic type does not support \<^verbatim>\<open>==\<close> (a
    slice, a map, a struct holding one) and has neither an \<^verbatim>\<open>Is\<close> nor an \<^verbatim>\<open>Unwrap\<close>
    method; \<open>s\<close> is its description.
  \<^item> \<open>WithMessage a c m\<close> and \<open>WithStack a c\<close> are the two layers that \<^verbatim>\<open>Wrap\<close> and
    \<^verbatim>\<open>Wrapf\<close> put around a cause \<open>c\<close>. Both are pointers to freshly allocated
    values: \<open>a\<close> is the address, so two wrappers built by two calls differ even when
    cause and message agree. The recorded call stack is left out.
  An address names one object of each kind; under that reading equality of two values of
  a comparable kind is Go's \<^verbatim>\<open>==\<close> on them.
\<close>

type_synonym addr = nat

datatype error =
    ErrorString addr string
  | Uncomparable string
  | WithMessage addr error string
  | WithStack addr error

text \<open>The method \<^verbatim>\<open>Error()\<close>: the description of an error.\<close>

fun Error :: "error \<Rightarrow> string" where
  "Error (ErrorString a s) = s"
| "Error (Uncomparable s) = s"
| "Error (WithMessage a c m) = m @ '': '' @ Error c"
| "Error (WithStack a c) = Error c"

text \<open>
  \<^verbatim>\<open>Wrap(err, message)\<close>: \<^verbatim>\<open>nil\<close> for a \<^verbatim>\<open>nil\<close> error. The first argument of the model
  is the address that the allocator hands out for the wrapper; the runtime picks a fresh
  one, and every statement below holds for every address.
\<close>

fun Wrap :: "addr \<Rightarrow> error option \<Rightarrow> string \<Rightarrow> error option" where
  "Wrap a None message = None"
| "Wrap a (Some err) message = Some (WithStack a (WithMessage a err message))"

text \<open>
  \<^verbatim>\<open>Wrapf(err, format, args...)\<close> wraps with the formatted message. Its one use in the
  source has a format that ends in \<^verbatim>\<open>%v\<close> with an error as the only argument, which
  prints that error's description: the formatted message is the text before the verb
  followed by \<open>Error rbErr\<close>.
\<close>

definition Wrapf :: "addr \<Rightarrow> error option \<Rightarrow> string \<Rightarrow> error \<Rightarrow> error option" where
  "Wrapf a err prefix rbErr = Wrap a err (prefix @ Error rbErr)"

text \<open>
  \<^verbatim>\<open>errors.Is(err, target)\<close>. When one of the two is \<^verbatim>\<open>nil\<close> the answer is whether both
  are. Otherwise the library asks once whether the dynamic type of \<open>target\<close> is
  comparable, then walks the chain of \<open>err\<close>: a link matches when the target is
  comparable and the link \<^verbatim>\<open>==\<close> the target; a wrapper is followed to its cause through
  \<^verbatim>\<open>Unwrap\<close>; a leaf ends the walk. None of the modelled kinds has an \<^verbatim>\<open>Is\<close> method. So a
  target of a type that is not comparable matches nothing, not even itself.
\<close>

fun comparable :: "error \<Rightarrow> bool" where
  "comparable (Uncomparable s) = False"
| "comparable e = True"

fun chain_has :: "error \<Rightarrow> error \<Rightarrow> bool" where
  "chain_has (ErrorString a s) target = (comparable target \<and> ErrorString a s = target)"
| "chain_has (Uncomparable s) target = (comparable target \<and> Uncomparable s = target)"
| "chain_has (WithMessage a c m) target =
     ((comparable target \<and> WithMessage a c m = target) \<or> chain_has c target)"
| "chain_has (WithStack a c) target =
     ((comparable target \<and> WithStack a c = target) \<or> chain_has c target)"

fun errors_Is :: "error option \<Rightarrow> error option \<Rightarrow> bool" where
  "errors_Is (Some err) (Some target) = chain_has err target"
| "errors_Is err target = (err = target)"

section \<open>The Runner interface and the unit of work (uow.go)\<close>

text \<open>
  A \<^verbatim>\<open>Runner\<close> is any value with the four methods. A method may read and change the
  state of its backend, so each one takes the state \<open>'s\<close> of the world it acts on and
  returns the new one. \<open>'c\<close> is the type of contexts (with \<^verbatim>\<open>nil\<close> among its values where
  a backend returns it), \<open>'d\<close> the type of what \<^verbatim>\<open>Get\<close> hands out.
\<close>

record ('s, 'c, 'd) Runner =
  Ctx :: "'c \<Rightarrow> 's \<Rightarrow> ('c \<times> error option) \<times> 's"
  Get :: "'c \<Rightarrow> 's \<Rightarrow> 'd \<times> 's"
  Commit :: "'c \<Rightarrow> 's \<Rightarrow> error option \<times> 's"
  Rollback :: "'c \<Rightarrow> 's \<Rightarrow> error option \<times> 's"

record ('s, 'c, 'd) UoW =
  runner :: "('s, 'c, 'd) Runner"

definition New :: "('s, 'c, 'd) Runner \<Rightarrow> ('s, 'c, 'd) UoW" where
  "New r = \<lparr>runner = r\<rparr>"

definition UoW_Get :: "('s, 'c, 'd) UoW \<Rightarrow> 'c \<Rightarrow> 's \<Rightarrow> 'd \<times> 's" where
  "UoW_Get u ctx s = Get (runner u) ctx s"

text \<open>
  \<^verbatim>\<open>Run\<close>: the operation \<open>fn\<close> is a function of the scoped context that acts on the same
  world and returns an error or \<^verbatim>\<open>nil\<close>. A call wraps at most once; \<open>a\<close> is the address of
  the wrapper it then allocates.
\<close>

definition UoW_Run ::
  "addr \<Rightarrow> ('s, 'c, 'd) UoW \<Rightarrow> 'c \<Rightarrow> ('c \<Rightarrow> 's \<Rightarrow> error option \<times> 's) \<Rightarrow> 's \<Rightarrow>
   error option \<times> 's" where
  "UoW_Run a u ctx fn s =
     (case Ctx (runner u) ctx s of
        ((uowCtx, Some err), s1) \<Rightarrow> (Wrap a (Some err) ''failed to start transaction'', s1)
      | ((uowCtx, None), s1) \<Rightarrow>
          (case fn uowCtx s1 of
             (Some err, s2) \<Rightarrow>
               (case Rollback (runner u) uowCtx s2 of
                  (Some rbErr, s3) \<Rightarrow>
                    (Wrapf a (Some err)
                       ''operation failed and rollback also failed: rollback error: '' rbErr, s3)
                | (None, s3) \<Rightarrow> (Some err, s3))
           | (None, s2) \<Rightarrow> Commit (runner u) uowCtx s2))"

section \<open>Recording the calls\<close>

text \<open>
  To speak about which methods a call invokes, in which order and with which context, a
  runner is put behind a recorder: \<open>spy r\<close> behaves as \<open>r\<close> on the backend's state and
  appends one event to a log for every method call it receives. \<open>spy_fn\<close> does the same
  for the operation. \<open>UoW_Run\<close> and \<open>UoW_Get\<close> are the definitions above, unchanged: they
  are generic in the runner, so the log holds exactly the calls they make.
\<close>

datatype 'c event = EvCtx 'c | EvGet 'c | EvFn 'c | EvCommit 'c | EvRollback 'c

definition spy :: "('s, 'c, 'd) Runner \<Rightarrow> ('s \<times> 'c event list, 'c, 'd) Runner" where
  "spy r =
     \<lparr>Ctx = (\<lambda>ctx (s, l). case Ctx r ctx s of (res, s') \<Rightarrow> (res, (s', l @ [EvCtx ctx]))),
      Get = (\<lambda>ctx (s, l). case Get r ctx s of (res, s') \<Rightarrow> (res, (s', l @ [EvGet ctx]))),
      Commit = (\<lambda>ctx (s, l). case Commit r ctx s of (res, s') \<Rightarrow> (res, (s', l @ [EvCommit ctx]))),
      Rollback = (\<lambda>ctx (s, l). case Rollback r ctx s of (res, s') \<Rightarrow> (res, (s', l @ [EvRollback ctx])))\<rparr>"

definition spy_fn ::
  "('c \<Rightarrow> 's \<Rightarrow> error option \<times> 's) \<Rightarrow> 'c \<Rightarrow> 's \<times> 'c event list \<Rightarrow> error option \<times> 's \<times> 'c event list" where
  "spy_fn fn = (\<lambda>ctx (s, l). case fn ctx s of (res, s') \<Rightarrow> (res, (s', l @ [EvFn ctx])))"

section \<open>The mock backend and its test\<close>

text \<open>
  \<^verbatim>\<open>State\<close> is a struct that the mock runner and the operation share through a pointer,
  so the world of the mock backend is a store of \<^verbatim>\<open>State\<close> objects indexed by address.
  \<open>brk\<close> is the next free address. The mutex of \<^verbatim>\<open>State\<close> guards every access and has
  no effect on a sequential run; it is left out. The field \<^verbatim>\<open>value\<close> is written
  \<open>State_value\<close>, the plain name being a reserved word.
\<close>

record State =
  State_value :: string

record store =
  cells :: "addr \<Rightarrow> State"
  brk :: addr

definition State_SetValue :: "addr \<Rightarrow> string \<Rightarrow> store \<Rightarrow> store" where
  "State_SetValue p str h = h\<lparr>cells := (cells h)(p := (cells h p)\<lparr>State_value := str\<rparr>)\<rparr>"

definition State_Value :: "addr \<Rightarrow> store \<Rightarrow> string" where
  "State_Value p h = State_value (cells h p)"

definition State_Commit :: "addr \<Rightarrow> store \<Rightarrow> store" where
  "State_Commit p h =
     h\<lparr>cells := (cells h)(p := (cells h p)\<lparr>State_value := State_value (cells h p) @ '' commited!''\<rparr>)\<rparr>"

definition State_Rollback :: "addr \<Rightarrow> store \<Rightarrow> store" where
  "State_Rollback p h =
     h\<lparr>cells := (cells h)(p := (cells h p)\<lparr>State_value := State_value (cells h p) @ '' rolled back!''\<rparr>)\<rparr>"

record MockTx =
  state :: addr

text \<open>\<^verbatim>\<open>NewMockTx\<close> allocates a fresh \<^verbatim>\<open>State\<close> with the zero value, the empty string.\<close>

definition NewMockTx :: "store \<Rightarrow> MockTx \<times> store" where
  "NewMockTx h =
     (\<lparr>state = brk h\<rparr>,
      h\<lparr>cells := (cells h)(brk h := \<lparr>State_value = []\<rparr>), brk := Suc (brk h)\<rparr>)"

definition MockTx_Ctx :: "MockTx \<Rightarrow> 'c \<Rightarrow> store \<Rightarrow> ('c \<times> error option) \<times> store" where
  "MockTx_Ctx t ctx h = ((ctx, None), h)"

definition MockTx_Get :: "MockTx \<Rightarrow> 'c \<Rightarrow> store \<Rightarrow> addr \<times> store" where
  "MockTx_Get t ctx h = (state t, h)"

definition MockTx_Rollback :: "MockTx \<Rightarrow> 'c \<Rightarrow> store \<Rightarrow> error option \<times> store" where
  "MockTx_Rollback t ctx h = (None, State_Rollback (state t) h)"

definition MockTx_Commit :: "MockTx \<Rightarrow> 'c \<Rightarrow> store \<Rightarrow> error option \<times> store" where
  "MockTx_Commit t ctx h = (None, State_Commit (state t) h)"

text \<open>\<^verbatim>\<open>MockTx\<close> seen through the interface.\<close>

definition MockTx_Runner :: "MockTx \<Rightarrow> (store, 'c, addr) Runner" where
  "MockTx_Runner t =
     \<lparr>Ctx = MockTx_Ctx t, Get = MockTx_Get t, Commit = MockTx_Commit t, Rollback = MockTx_Rollback t\<rparr>"

text \<open>
  The test \<^verbatim>\<open>TestRollback\<close>. \<open>ErrRollback\<close> is the package-level sentinel; the tests build
  one context only, \<^verbatim>\<open>context.Background()\<close>. The test returns the failures it reports
  (its calls of \<^verbatim>\<open>t.Errorf\<close>), each with the value its message prints. The address
  offered to \<open>Run\<close> for a wrapper is the store's next free one.
\<close>

definition ErrRollback :: error where
  "ErrRollback = ErrorString 0 ''rollback error''"

datatype background = Background

datatype failure = ExpectedRollbackError "error option" | ExpectedState string

definition TestRollback_fn :: "(store, 'c, addr) UoW \<Rightarrow> 'c \<Rightarrow> store \<Rightarrow> error option \<times> store" where
  "TestRollback_fn txs ctx h =
     (case UoW_Get txs ctx h of (tx, h1) \<Rightarrow> (Some ErrRollback, State_SetValue tx ''test state'' h1))"

definition TestRollback :: "store \<Rightarrow> failure list" where
  "TestRollback h =
     (case NewMockTx h of
        (mt, h1) \<Rightarrow>
          (case UoW_Run (brk h1) (New (MockTx_Runner mt)) Background
                  (TestRollback_fn (New (MockTx_Runner mt))) h1 of
             (err, h2) \<Rightarrow>
               (if err \<noteq> None \<and> \<not> errors_Is err (Some ErrRollback)
                then [ExpectedRollbackError err] else []) @
               (if State_Value (state mt) h2 \<noteq> ''test state rolled back!''
                then [ExpectedState (State_Value (state mt) h2)] else [])))"

section \<open>The MongoDB backend\<close>

text \<open>
  The MongoDB driver is a library outside the source, and what its calls answer depends
  on a server, so it is a parameter: a record of the driver functions that \<^verbatim>\<open>MongoTx\<close>
  uses, over any world \<open>'w\<close>. Every statement below holds for every driver.
  \<^item> \<open>'cl\<close>, \<open>'se\<close> and \<open>'db\<close> are the client, session and database handles;
  \<^item> a context is a \<open>'k option\<close>, \<open>None\<close> being the \<^verbatim>\<open>nil\<close> context;
  \<^item> \<open>StartSession\<close> answers a session and an error, as in Go; the session is read only
    when the error is \<^verbatim>\<open>nil\<close>;
  \<^item> \<open>SessionFromContext\<close> answers \<open>None\<close> for Go's \<^verbatim>\<open>nil\<close> session.
\<close>

record ('w, 'k, 'cl, 'se, 'db) driver =
  StartSession :: "'cl \<Rightarrow> 'w \<Rightarrow> ('se \<times> error option) \<times> 'w"
  StartTransaction :: "'se \<Rightarrow> 'w \<Rightarrow> error option \<times> 'w"
  AbortTransaction :: "'se \<Rightarrow> 'k option \<Rightarrow> 'w \<Rightarrow> error option \<times> 'w"
  CommitTransaction :: "'se \<Rightarrow> 'k option \<Rightarrow> 'w \<Rightarrow> error option \<times> 'w"
  EndSession :: "'se \<Rightarrow> 'k option \<Rightarrow> 'w \<Rightarrow> 'w"
  NewSessionContext :: "'k option \<Rightarrow> 'se \<Rightarrow> 'k"
  SessionFromContext :: "'k option \<Rightarrow> 'se option"
  Client :: "'se \<Rightarrow> 'cl"
  Database :: "'cl \<Rightarrow> string \<Rightarrow> 'db"

record 'cl MongoTx =
  client :: 'cl
  dbName :: string

definition NewMongoTx :: "'cl \<Rightarrow> string \<Rightarrow> 'cl MongoTx" where
  "NewMongoTx cl name = \<lparr>client = cl, dbName = name\<rparr>"

text \<open>
  \<^verbatim>\<open>Ctx\<close> wraps the error of \<^verbatim>\<open>StartTransaction\<close>; \<open>a\<close> is the address of that wrapper.
\<close>

definition MongoTx_Ctx ::
  "addr \<Rightarrow> ('w, 'k, 'cl, 'se, 'db) driver \<Rightarrow> 'cl MongoTx \<Rightarrow> 'k option \<Rightarrow> 'w \<Rightarrow>
   ('k option \<times> error option) \<times> 'w" where
  "MongoTx_Ctx a d m ctx w =
     (case StartSession d (client m) w of
        ((sess, Some err), w1) \<Rightarrow> ((None, Some err), w1)
      | ((sess, None), w1) \<Rightarrow>
          (case StartTransaction d sess w1 of
             (Some err, w2) \<Rightarrow> ((None, Wrap a (Some err) ''error in starting transaction''), w2)
           | (None, w2) \<Rightarrow> ((Some (NewSessionContext d ctx sess), None), w2)))"

definition MongoTx_Get ::
  "('w, 'k, 'cl, 'se, 'db) driver \<Rightarrow> 'cl MongoTx \<Rightarrow> 'k option \<Rightarrow> 'w \<Rightarrow> 'db \<times> 'w" where
  "MongoTx_Get d m ctx w =
     (case SessionFromContext d ctx of
        Some sess \<Rightarrow> (Database d (Client d sess) (dbName m), w)
      | None \<Rightarrow> (Database d (client m) (dbName m), w))"

text \<open>
  In \<^verbatim>\<open>Rollback\<close> and \<^verbatim>\<open>Commit\<close> the call of \<^verbatim>\<open>EndSession\<close> is deferred: it runs after the
  returned expression is evaluated and before the method returns.
\<close>

definition MongoTx_Rollback ::
  "('w, 'k, 'cl, 'se, 'db) driver \<Rightarrow> 'cl MongoTx \<Rightarrow> 'k option \<Rightarrow> 'w \<Rightarrow> error option \<times> 'w" where
  "MongoTx_Rollback d m ctx w =
     (case SessionFromContext d ctx of
        Some sess \<Rightarrow>
          (case AbortTransaction d sess ctx w of (err, w1) \<Rightarrow> (err, EndSession d sess ctx w1))
      | None \<Rightarrow> (None, w))"

definition MongoTx_Commit ::
  "('w, 'k, 'cl, 'se, 'db) driver \<Rightarrow> 'cl MongoTx \<Rightarrow> 'k option \<Rightarrow> 'w \<Rightarrow> error option \<times> 'w" where
  "MongoTx_Commit d m ctx w =
     (case SessionFromContext d ctx of
        Some sess \<Rightarrow>
          (case CommitTransaction d sess ctx w of (err, w1) \<Rightarrow> (err, EndSession d sess ctx w1))
      | None \<Rightarrow> (None, w))"

definition MongoTx_Runner ::
  "addr \<Rightarrow> ('w, 'k, 'cl, 'se, 'db) driver \<Rightarrow> 'cl MongoTx \<Rightarrow> ('w, 'k option, 'db) Runner" where
  "MongoTx_Runner a d m =
     \<lparr>Ctx = MongoTx_Ctx a d m, Get = MongoTx_Get d m,
      Commit = MongoTx_Commit d m, Rollback = MongoTx_Rollback d m\<rparr>"

text \<open>
  The recorder of the driver: \<open>spy_driver d\<close> answers as \<open>d\<close> and logs every call that
  acts on the world. The functions that only read (\<open>NewSessionContext\<close>,
  \<open>SessionFromContext\<close>, \<open>Client\<close>, \<open>Database\<close>) are those of \<open>d\<close>.
\<close>

datatype ('k, 'cl, 'se) call =
    CallStartSession 'cl
  | CallStartTransaction 'se
  | CallAbortTransaction 'se "'k option"
  | CallCommitTransaction 'se "'k option"
  | CallEndSession 'se "'k option"

definition spy_driver ::
  "('w, 'k, 'cl, 'se, 'db) driver \<Rightarrow> ('w \<times> ('k, 'cl, 'se) call list, 'k, 'cl, 'se, 'db) driver" where
  "spy_driver d =
     \<lparr>StartSession = (\<lambda>cl (w, l).
        case StartSession d cl w of (res, w') \<Rightarrow> (res, (w', l @ [CallStartSession cl]))),
      StartTransaction = (\<lambda>sess (w, l).
        case StartTransaction d sess w of (res, w') \<Rightarrow> (res, (w', l @ [CallStartTransaction sess]))),
      AbortTransaction = (\<lambda>sess ctx (w, l).
        case AbortTransaction d sess ctx w of
          (res, w') \<Rightarrow> (res, (w', l @ [CallAbortTransaction sess ctx]))),
      CommitTransaction = (\<lambda>sess ctx (w, l).
        case CommitTransaction d sess ctx w of
          (res, w') \<Rightarrow> (res, (w', l @ [CallCommitTransaction sess ctx]))),
      EndSession = (\<lambda>sess ctx (w, l). (EndSession d sess ctx w, l @ [CallEndSession sess ctx])),
      NewSessionContext = NewSessionContext d,
      SessionFromContext = SessionFromContext d,
      Client = Client d,
      Database = Database d\<rparr>"

section \<open>A scripted driver\<close>

text \<open>
  A driver with fixed answers, to run the statements on concrete inputs. Its world is the
  list of the sessions that are open; \<open>stub_driver e1 e2 e3 e4\<close> answers \<open>e1\<close> to
  \<open>StartSession\<close>, \<open>e2\<close> to \<open>StartTransaction\<close>, \<open>e3\<close> to \<open>AbortTransaction\<close> and \<open>e4\<close> to
  \<open>CommitTransaction\<close>. Sessions and clients are numbers, a database handle is the pair
  of its client and its name.
\<close>

datatype stub_ctx = Plain | SessionContext "stub_ctx option" nat

fun stub_session :: "stub_ctx option \<Rightarrow> nat option" where
  "stub_session (Some (SessionContext parent sess)) = Some sess"
| "stub_session ctx = None"

definition stub_driver ::
  "error option \<Rightarrow> error option \<Rightarrow> error option \<Rightarrow> error option \<Rightarrow>
   (nat list, stub_ctx, nat, nat, nat \<times> string) driver" where
  "stub_driver e1 e2 e3 e4 =
     \<lparr>StartSession = (\<lambda>cl w. case e1 of None \<Rightarrow> ((7, None), 7 # w) | Some e \<Rightarrow> ((0, Some e), w)),
      StartTransaction = (\<lambda>sess w. (e2, w)),
      AbortTransaction = (\<lambda>sess ctx w. (e3, w)),
      CommitTransaction = (\<lambda>sess ctx w. (e4, w)),
      EndSession = (\<lambda>sess ctx w. removeAll sess w),
      NewSessionContext = SessionContext,
      SessionFromContext = stub_session,
      Client = (\<lambda>sess. 1),
      Database = Pair\<rparr>"

definition boom :: error where
  "boom = ErrorString 1 ''boom''"

definition refused :: error where
  "refused = ErrorString 2 ''connection refused''"

definition ragged :: error where
  "ragged = Uncomparable ''ragged''"

definition fail_with :: "error \<Rightarrow> 'c \<Rightarrow> 's \<Rightarrow> error option \<times> 's" where
  "fail_with e ctx s = (Some e, s)"

definition fail_fn :: "'c \<Rightarrow> 's \<Rightarrow> error option \<times> 's" where
  "fail_fn ctx s = (Some boom, s)"

definition ok_fn :: "'c \<Rightarrow> 's \<Rightarrow> error option \<times> 's" where
  "ok_fn ctx s = (None, s)"

section \<open>Properties of the unit of work\<close>

lemma spy_Ctx: "Ctx (spy r) ctx (s, l) = (fst (Ctx r ctx s), snd (Ctx r ctx s), l @ [EvCtx ctx])"
  by (simp add: spy_def split: prod.splits)

lemma spy_Get: "Get (spy r) ctx (s, l) = (fst (Get r ctx s), snd (Get r ctx s), l @ [EvGet ctx])"
  by (simp add: spy_def split: prod.splits)

lemma spy_Commit:
  "Commit (spy r) ctx (s, l) = (fst (Commit r ctx s), snd (Commit r ctx s), l @ [EvCommit ctx])"
  by (simp add: spy_def split: prod.splits)

lemma spy_Rollback:
  "Rollback (spy r) ctx (s, l) = (fst (Rollback r ctx s), snd (Rollback r ctx s), l @ [EvRollback ctx])"
  by (simp add: spy_def split: prod.splits)

lemma spy_fn_apply: "spy_fn fn ctx (s, l) = (fst (fn ctx s), snd (fn ctx s), l @ [EvFn ctx])"
  by (simp add: spy_fn_def split: prod.splits)

lemmas spy_simps = spy_Ctx spy_Get spy_Commit spy_Rollback spy_fn_apply

text \<open>The recorder changes neither the result nor the backend's state.\<close>

lemma spy_transparent:
  "fst (UoW_Run a (New (spy r)) ctx (spy_fn fn) (s, l)) = fst (UoW_Run a (New r) ctx fn s) \<and>
   fst (snd (UoW_Run a (New (spy r)) ctx (spy_fn fn) (s, l))) = snd (UoW_Run a (New r) ctx fn s)"
  by (simp add: UoW_Run_def New_def spy_simps split: prod.splits option.splits)

text \<open>An error matches itself exactly when its type is comparable.\<close>

lemma chain_has_refl: "chain_has e e = comparable e"
  by (cases e) simp_all

lemma chain_has_uncomparable: "\<not> comparable target \<Longrightarrow> \<not> chain_has e target"
  by (induction e) simp_all

lemma chain_has_Wrap:
  "chain_has (WithStack a (WithMessage a e m)) e = comparable e"
  by (cases "comparable e") (simp_all add: chain_has_refl chain_has_uncomparable)

text \<open>
  C1, as amended. Whenever the operation returns an error and the runner's \<open>Rollback\<close> on
  the scoped context returns an error too, \<open>Run\<close> returns the operation's error wrapped,
  with the operation's error as the cause. The description of the result is the rollback
  message, then the description of the rollback error, then the description of the
  operation's error. \<open>errors_Is\<close> of the result against the operation's error holds
  exactly when the operation's error is of a comparable type: it holds for every error
  made by \<^verbatim>\<open>errors.New\<close> and for every wrapped error, and fails for an error value of a
  type without \<^verbatim>\<open>==\<close>, which \<^verbatim>\<open>errors.Is\<close> matches with nothing.
\<close>

theorem Run_rollback_fails:
  assumes "Ctx r ctx s = ((uowCtx, None), s1)"
    and "fn uowCtx s1 = (Some err, s2)"
    and "Rollback r uowCtx s2 = (Some rbErr, s3)"
  shows "UoW_Run a (New r) ctx fn s =
           (Wrapf a (Some err) ''operation failed and rollback also failed: rollback error: '' rbErr, s3) \<and>
         errors_Is (fst (UoW_Run a (New r) ctx fn s)) (Some err) = comparable err \<and>
         map_option Error (fst (UoW_Run a (New r) ctx fn s)) =
           Some (''operation failed and rollback also failed: rollback error: '' @ Error rbErr @
                 '': '' @ Error err)"
  using assms by (simp add: UoW_Run_def New_def Wrapf_def chain_has_Wrap del: chain_has.simps)

theorem Run_rollback_fails_witness:
  "Ctx (MongoTx_Runner 50 (stub_driver None None (Some refused) None) (NewMongoTx 1 ''db'')) (Some Plain) []
     = ((Some (SessionContext (Some Plain) 7), None), [7]) \<and>
   fail_fn (Some (SessionContext (Some Plain) 7)) [7::nat] = (Some boom, [7]) \<and>
   Rollback (MongoTx_Runner 50 (stub_driver None None (Some refused) None) (NewMongoTx 1 ''db''))
     (Some (SessionContext (Some Plain) 7)) [7] = (Some refused, []) \<and>
   comparable boom \<and>
   errors_Is (fst (UoW_Run 60 (New (MongoTx_Runner 50 (stub_driver None None (Some refused) None) (NewMongoTx 1 ''db'')))
       (Some Plain) fail_fn [])) (Some boom) \<and>
   map_option Error (fst (UoW_Run 60 (New (MongoTx_Runner 50 (stub_driver None None (Some refused) None) (NewMongoTx 1 ''db'')))
       (Some Plain) fail_fn [])) =
     Some ''operation failed and rollback also failed: rollback error: connection refused: boom''"
proof -
  let ?r = "MongoTx_Runner 50 (stub_driver None None (Some refused) None) (NewMongoTx 1 ''db'')"
  have h1: "Ctx ?r (Some Plain) [] = ((Some (SessionContext (Some Plain) 7), None), [7])"
    by (simp add: MongoTx_Runner_def MongoTx_Ctx_def stub_driver_def NewMongoTx_def)
  have h2: "fail_fn (Some (SessionContext (Some Plain) 7)) [7::nat] = (Some boom, [7])"
    by (simp add: fail_fn_def)
  have h3: "Rollback ?r (Some (SessionContext (Some Plain) 7)) [7] = (Some refused, [])"
    by (simp add: MongoTx_Runner_def MongoTx_Rollback_def stub_driver_def)
  show ?thesis
    using h1 h2 h3 Run_rollback_fails [where a = 60 and fn = fail_fn, OF h1 h2 h3]
    by (simp add: boom_def refused_def Wrapf_def)
qed

text \<open>
  The claim as first stated, for every error of the operation, fails for an error of a
  type that is not comparable: the operation returns \<open>ragged\<close>, the rollback fails, and
  \<open>errors_Is\<close> of the result against \<open>ragged\<close> is false.
\<close>

theorem Run_rollback_fails_counterexample:
  "Ctx (MongoTx_Runner 50 (stub_driver None None (Some refused) None) (NewMongoTx 1 ''db'')) (Some Plain) []
     = ((Some (SessionContext (Some Plain) 7), None), [7]) \<and>
   fail_with ragged (Some (SessionContext (Some Plain) 7)) [7::nat] = (Some ragged, [7]) \<and>
   Rollback (MongoTx_Runner 50 (stub_driver None None (Some refused) None) (NewMongoTx 1 ''db''))
     (Some (SessionContext (Some Plain) 7)) [7] = (Some refused, []) \<and>
   UoW_Run 60 (New (MongoTx_Runner 50 (stub_driver None None (Some refused) None) (NewMongoTx 1 ''db'')))
       (Some Plain) (fail_with ragged) [] =
     (Some (WithStack 60 (WithMessage 60 ragged
        ''operation failed and rollback also failed: rollback error: connection refused'')), []) \<and>
   \<not> errors_Is
       (fst (UoW_Run 60 (New (MongoTx_Runner 50 (stub_driver None None (Some refused) None) (NewMongoTx 1 ''db'')))
          (Some Plain) (fail_with ragged) []))
       (Some ragged)"
  by (simp add: UoW_Run_def New_def Wrapf_def MongoTx_Runner_def MongoTx_Ctx_def MongoTx_Rollback_def
      stub_driver_def NewMongoTx_def fail_with_def ragged_def refused_def)

text \<open>
  C2. Whenever the operation returns an error and \<open>Rollback\<close> on the scoped context
  returns \<^verbatim>\<open>nil\<close>, \<open>Run\<close> returns the operation's error itself, and the calls made are
  \<open>Ctx\<close>, the operation and \<open>Rollback\<close>: \<open>Commit\<close> is not called.
\<close>

theorem Run_rollback_succeeds:
  assumes "Ctx r ctx s = ((uowCtx, None), s1)"
    and "fn uowCtx s1 = (Some err, s2)"
    and "Rollback r uowCtx s2 = (None, s3)"
  shows "UoW_Run a (New r) ctx fn s = (Some err, s3) \<and>
         UoW_Run a (New (spy r)) ctx (spy_fn fn) (s, []) =
           (Some err, s3, [EvCtx ctx, EvFn uowCtx, EvRollback uowCtx]) \<and>
         (\<forall>c. EvCommit c \<notin> set (snd (snd (UoW_Run a (New (spy r)) ctx (spy_fn fn) (s, [])))))"
  using assms by (simp add: UoW_Run_def New_def spy_simps)

theorem Run_rollback_succeeds_witness:
  "Ctx (MockTx_Runner \<lparr>state = 0\<rparr>) Background \<lparr>cells = (\<lambda>p. \<lparr>State_value = ''x''\<rparr>), brk = 1\<rparr> =
     ((Background, None), \<lparr>cells = (\<lambda>p. \<lparr>State_value = ''x''\<rparr>), brk = 1\<rparr>) \<and>
   fail_fn Background \<lparr>cells = (\<lambda>p. \<lparr>State_value = ''x''\<rparr>), brk = 1\<rparr> =
     (Some boom, \<lparr>cells = (\<lambda>p. \<lparr>State_value = ''x''\<rparr>), brk = 1\<rparr>) \<and>
   Rollback (MockTx_Runner \<lparr>state = 0\<rparr>) Background \<lparr>cells = (\<lambda>p. \<lparr>State_value = ''x''\<rparr>), brk = 1\<rparr> =
     (None, State_Rollback 0 \<lparr>cells = (\<lambda>p. \<lparr>State_value = ''x''\<rparr>), brk = 1\<rparr>) \<and>
   UoW_Run 60 (New (spy (MockTx_Runner \<lparr>state = 0\<rparr>))) Background (spy_fn fail_fn)
      (\<lparr>cells = (\<lambda>p. \<lparr>State_value = ''x''\<rparr>), brk = 1\<rparr>, []) =
     (Some boom, State_Rollback 0 \<lparr>cells = (\<lambda>p. \<lparr>State_value = ''x''\<rparr>), brk = 1\<rparr>,
      [EvCtx Background, EvFn Background, EvRollback Background]) \<and>
   State_Value 0 (State_Rollback 0 \<lparr>cells = (\<lambda>p. \<lparr>State_value = ''x''\<rparr>), brk = 1\<rparr>) = ''x rolled back!''"
proof -
  let ?h = "\<lparr>cells = (\<lambda>p. \<lparr>State_value = ''x''\<rparr>), brk = 1\<rparr>"
  let ?r = "MockTx_Runner \<lparr>state = 0\<rparr> :: (store, background, addr) Runner"
  have h1: "Ctx ?r Background ?h = ((Background, None), ?h)"
    by (simp add: MockTx_Runner_def MockTx_Ctx_def)
  have h2: "fail_fn Background ?h = (Some boom, ?h)"
    by (simp add: fail_fn_def)
  have h3: "Rollback ?r Background ?h = (None, State_Rollback 0 ?h)"
    by (simp add: MockTx_Runner_def MockTx_Rollback_def)
  show ?thesis
    using h1 h2 h3 Run_rollback_succeeds [where a = 60 and fn = fail_fn, OF h1 h2 h3]
    by (simp add: State_Value_def State_Rollback_def)
qed

text \<open>
  C3. Whenever the runner's \<open>Ctx\<close> returns an error, \<open>Run\<close> returns that error wrapped
  with the message "failed to start transaction", the only call made is \<open>Ctx\<close> (the
  operation is not invoked) and the state is the one \<open>Ctx\<close> left. Beyond the claim:
  \<open>errors_Is\<close> of the result against the error of \<open>Ctx\<close> holds exactly when that error is
  of a comparable type.
\<close>

theorem Run_acquire_fails:
  assumes "Ctx r ctx s = ((uowCtx, Some err), s1)"
  shows "UoW_Run a (New (spy r)) ctx (spy_fn fn) (s, []) =
           (Wrap a (Some err) ''failed to start transaction'', s1, [EvCtx ctx]) \<and>
         UoW_Run a (New r) ctx fn s = (Wrap a (Some err) ''failed to start transaction'', s1) \<and>
         map_option Error (fst (UoW_Run a (New r) ctx fn s)) =
           Some (''failed to start transaction: '' @ Error err) \<and>
         errors_Is (fst (UoW_Run a (New r) ctx fn s)) (Some err) = comparable err"
  using assms by (simp add: UoW_Run_def New_def spy_simps chain_has_Wrap del: chain_has.simps)

theorem Run_acquire_fails_witness:
  "Ctx (MongoTx_Runner 50 (stub_driver (Some refused) None None None) (NewMongoTx 1 ''db'')) (Some Plain) [] =
     ((None, Some refused), []) \<and>
   UoW_Run 60 (New (spy (MongoTx_Runner 50 (stub_driver (Some refused) None None None) (NewMongoTx 1 ''db''))))
     (Some Plain) (spy_fn ok_fn) ([], []) =
     (Some (WithStack 60 (WithMessage 60 refused ''failed to start transaction'')), [], [EvCtx (Some Plain)]) \<and>
   map_option Error
     (fst (UoW_Run 60 (New (MongoTx_Runner 50 (stub_driver (Some refused) None None None) (NewMongoTx 1 ''db'')))
        (Some Plain) ok_fn [])) =
     Some ''failed to start transaction: connection refused''"
proof -
  let ?r = "MongoTx_Runner 50 (stub_driver (Some refused) None None None) (NewMongoTx 1 ''db'')"
  have h1: "Ctx ?r (Some Plain) [] = ((None, Some refused), [])"
    by (simp add: MongoTx_Runner_def MongoTx_Ctx_def stub_driver_def NewMongoTx_def)
  show ?thesis
    using h1 Run_acquire_fails [where a = 60 and fn = ok_fn, OF h1] by (simp add: refused_def)
qed

text \<open>
  C4. Whenever \<open>Ctx\<close> succeeds and the operation returns \<^verbatim>\<open>nil\<close>, \<open>Run\<close> calls \<open>Commit\<close>
  once, with the scoped context that \<open>Ctx\<close> produced, does not call \<open>Rollback\<close>, and
  returns what \<open>Commit\<close> returns; so \<open>Run\<close> returns \<^verbatim>\<open>nil\<close> exactly when \<open>Commit\<close> does.
\<close>

theorem Run_commits_on_success:
  assumes "Ctx r ctx s = ((uowCtx, None), s1)"
    and "fn uowCtx s1 = (None, s2)"
  shows "UoW_Run a (New r) ctx fn s = Commit r uowCtx s2 \<and>
         UoW_Run a (New (spy r)) ctx (spy_fn fn) (s, []) =
           (fst (Commit r uowCtx s2), snd (Commit r uowCtx s2),
            [EvCtx ctx, EvFn uowCtx, EvCommit uowCtx]) \<and>
         (\<forall>c. EvRollback c \<notin> set (snd (snd (UoW_Run a (New (spy r)) ctx (spy_fn fn) (s, []))))) \<and>
         (fst (UoW_Run a (New r) ctx fn s) = None) = (fst (Commit r uowCtx s2) = None)"
  using assms by (simp add: UoW_Run_def New_def spy_simps)

theorem Run_commits_on_success_witness:
  "Ctx (MongoTx_Runner 50 (stub_driver None None None (Some refused)) (NewMongoTx 1 ''db'')) (Some Plain) []
     = ((Some (SessionContext (Some Plain) 7), None), [7]) \<and>
   ok_fn (Some (SessionContext (Some Plain) 7)) [7::nat] = (None, [7]) \<and>
   UoW_Run 60 (New (spy (MongoTx_Runner 50 (stub_driver None None None (Some refused)) (NewMongoTx 1 ''db''))))
     (Some Plain) (spy_fn ok_fn) ([], []) =
     (Some refused, [],
      [EvCtx (Some Plain), EvFn (Some (SessionContext (Some Plain) 7)),
       EvCommit (Some (SessionContext (Some Plain) 7))])"
proof -
  let ?r = "MongoTx_Runner 50 (stub_driver None None None (Some refused)) (NewMongoTx 1 ''db'')"
  have h1: "Ctx ?r (Some Plain) [] = ((Some (SessionContext (Some Plain) 7), None), [7])"
    by (simp add: MongoTx_Runner_def MongoTx_Ctx_def stub_driver_def NewMongoTx_def)
  have h2: "ok_fn (Some (SessionContext (Some Plain) 7)) [7::nat] = (None, [7])"
    by (simp add: ok_fn_def)
  have c: "Commit ?r (Some (SessionContext (Some Plain) 7)) [7] = (Some refused, [])"
    by (simp add: MongoTx_Runner_def MongoTx_Commit_def stub_driver_def)
  show ?thesis
    using h1 h2 Run_commits_on_success [where a = 60 and fn = ok_fn, OF h1 h2, unfolded c] by simp
qed

text \<open>
  C5. Whenever \<open>Ctx\<close> succeeds, the calls of a \<open>Run\<close> are, in this order: \<open>Ctx\<close> once
  with the caller's context, the operation once with the scoped context, and then one of
  \<open>Commit\<close> and \<open>Rollback\<close> with the scoped context (\<open>Commit\<close> when the operation
  returned \<^verbatim>\<open>nil\<close>, \<open>Rollback\<close> otherwise).
\<close>

theorem Run_call_order:
  assumes "Ctx r ctx s = ((uowCtx, None), s1)"
  shows "snd (snd (UoW_Run a (New (spy r)) ctx (spy_fn fn) (s, []))) =
           [EvCtx ctx, EvFn uowCtx,
            (if fst (fn uowCtx s1) = None then EvCommit uowCtx else EvRollback uowCtx)]"
  using assms
  by (simp add: UoW_Run_def New_def spy_simps split: prod.splits option.splits)

theorem Run_call_order_witness:
  "Ctx (MockTx_Runner \<lparr>state = 0\<rparr>) Background \<lparr>cells = (\<lambda>p. \<lparr>State_value = ''x''\<rparr>), brk = 1\<rparr> =
     ((Background, None), \<lparr>cells = (\<lambda>p. \<lparr>State_value = ''x''\<rparr>), brk = 1\<rparr>) \<and>
   snd (snd (UoW_Run 60 (New (spy (MockTx_Runner \<lparr>state = 0\<rparr>))) Background (spy_fn ok_fn)
      (\<lparr>cells = (\<lambda>p. \<lparr>State_value = ''x''\<rparr>), brk = 1\<rparr>, []))) =
     [EvCtx Background, EvFn Background, EvCommit Background] \<and>
   snd (snd (UoW_Run 60 (New (spy (MockTx_Runner \<lparr>state = 0\<rparr>))) Background (spy_fn fail_fn)
      (\<lparr>cells = (\<lambda>p. \<lparr>State_value = ''x''\<rparr>), brk = 1\<rparr>, []))) =
     [EvCtx Background, EvFn Background, EvRollback Background]"
proof -
  let ?h = "\<lparr>cells = (\<lambda>p. \<lparr>State_value = ''x''\<rparr>), brk = 1\<rparr>"
  let ?r = "MockTx_Runner \<lparr>state = 0\<rparr> :: (store, background, addr) Runner"
  have h1: "Ctx ?r Background ?h = ((Background, None), ?h)"
    by (simp add: MockTx_Runner_def MockTx_Ctx_def)
  show ?thesis
    using h1 Run_call_order [where a = 60 and fn = ok_fn, OF h1] Run_call_order [where a = 60 and fn = fail_fn, OF h1]
    by (simp add: ok_fn_def fail_fn_def)
qed

text \<open>
  C6. \<open>UoW.Get\<close> returns what the runner's \<open>Get\<close> returns on the same context, leaves
  the state as the runner's \<open>Get\<close> leaves it, and makes that one call of the runner and
  no other.
\<close>

theorem Get_pass_through:
  "UoW_Get (New r) ctx s = Get r ctx s \<and>
   UoW_Get (New (spy r)) ctx (s, []) = (fst (Get r ctx s), snd (Get r ctx s), [EvGet ctx])"
  by (simp add: UoW_Get_def New_def spy_simps)

section \<open>Properties of the MongoDB backend\<close>

lemma spy_driver_StartSession:
  "StartSession (spy_driver d) cl (w, l) =
     (fst (StartSession d cl w), snd (StartSession d cl w), l @ [CallStartSession cl])"
  by (simp add: spy_driver_def split: prod.splits)

lemma spy_driver_StartTransaction:
  "StartTransaction (spy_driver d) sess (w, l) =
     (fst (StartTransaction d sess w), snd (StartTransaction d sess w), l @ [CallStartTransaction sess])"
  by (simp add: spy_driver_def split: prod.splits)

lemma spy_driver_AbortTransaction:
  "AbortTransaction (spy_driver d) sess ctx (w, l) =
     (fst (AbortTransaction d sess ctx w), snd (AbortTransaction d sess ctx w),
      l @ [CallAbortTransaction sess ctx])"
  by (simp add: spy_driver_def split: prod.splits)

lemma spy_driver_CommitTransaction:
  "CommitTransaction (spy_driver d) sess ctx (w, l) =
     (fst (CommitTransaction d sess ctx w), snd (CommitTransaction d sess ctx w),
      l @ [CallCommitTransaction sess ctx])"
  by (simp add: spy_driver_def split: prod.splits)

lemma spy_driver_EndSession:
  "EndSession (spy_driver d) sess ctx (w, l) = (EndSession d sess ctx w, l @ [CallEndSession sess ctx])"
  by (simp add: spy_driver_def)

lemma spy_driver_pure:
  "NewSessionContext (spy_driver d) = NewSessionContext d"
  "SessionFromContext (spy_driver d) = SessionFromContext d"
  "Client (spy_driver d) = Client d"
  "Database (spy_driver d) = Database d"
  by (simp_all add: spy_driver_def)

lemmas spy_driver_simps =
  spy_driver_StartSession spy_driver_StartTransaction spy_driver_AbortTransaction
  spy_driver_CommitTransaction spy_driver_EndSession spy_driver_pure

text \<open>
  C7. \<open>MongoTx.Get\<close> has no error path: on every context it returns a database handle
  for the stored database name and makes no driver call that acts on the world. On a
  context that carries no session it returns the database of the stored client with the
  stored name.
\<close>

theorem MongoTx_Get_fallback:
  "(\<exists>cl. MongoTx_Get d m ctx w = (Database d cl (dbName m), w)) \<and>
   MongoTx_Get (spy_driver d) m ctx (w, l) = (fst (MongoTx_Get d m ctx w), w, l) \<and>
   (SessionFromContext d ctx = None \<longrightarrow>
      MongoTx_Get d m ctx w = (Database d (client m) (dbName m), w))"
  by (auto simp add: MongoTx_Get_def spy_driver_simps split: option.splits)

theorem MongoTx_Get_fallback_witness:
  "SessionFromContext (stub_driver None None None None) (Some Plain) = None \<and>
   MongoTx_Get (stub_driver None None None None) (NewMongoTx 1 ''db'') (Some Plain) [] =
     ((1, ''db''), [])"
  using MongoTx_Get_fallback [of "stub_driver None None None None" "NewMongoTx 1 ''db''" "Some Plain" "[]" "[]"]
  by (simp add: stub_driver_def NewMongoTx_def)

text \<open>
  C8. On a context that carries a session, \<open>Commit\<close> calls \<open>CommitTransaction\<close> and then
  \<open>EndSession\<close> on that session, and \<open>Rollback\<close> calls \<open>AbortTransaction\<close> and then
  \<open>EndSession\<close>; each returns what the transaction call returned, whether it is an
  error or \<^verbatim>\<open>nil\<close>.
\<close>

theorem MongoTx_finish_ends_session:
  assumes "SessionFromContext d ctx = Some sess"
  shows "MongoTx_Commit (spy_driver d) m ctx (w, []) =
           (fst (CommitTransaction d sess ctx w),
            EndSession d sess ctx (snd (CommitTransaction d sess ctx w)),
            [CallCommitTransaction sess ctx, CallEndSession sess ctx]) \<and>
         MongoTx_Rollback (spy_driver d) m ctx (w, []) =
           (fst (AbortTransaction d sess ctx w),
            EndSession d sess ctx (snd (AbortTransaction d sess ctx w)),
            [CallAbortTransaction sess ctx, CallEndSession sess ctx])"
  using assms
  by (simp add: MongoTx_Commit_def MongoTx_Rollback_def spy_driver_simps split: prod.splits)

theorem MongoTx_finish_ends_session_witness:
  "SessionFromContext (stub_driver None None None (Some refused)) (Some (SessionContext (Some Plain) 7)) = Some 7 \<and>
   MongoTx_Commit (spy_driver (stub_driver None None None (Some refused))) (NewMongoTx 1 ''db'')
      (Some (SessionContext (Some Plain) 7)) ([7], []) =
     (Some refused, [],
      [CallCommitTransaction 7 (Some (SessionContext (Some Plain) 7)),
       CallEndSession 7 (Some (SessionContext (Some Plain) 7))]) \<and>
   MongoTx_Rollback (spy_driver (stub_driver None None None (Some refused))) (NewMongoTx 1 ''db'')
      (Some (SessionContext (Some Plain) 7)) ([7], []) =
     (None, [],
      [CallAbortTransaction 7 (Some (SessionContext (Some Plain) 7)),
       CallEndSession 7 (Some (SessionContext (Some Plain) 7))])"
proof -
  let ?d = "stub_driver None None None (Some refused)"
  have h1: "SessionFromContext ?d (Some (SessionContext (Some Plain) 7)) = Some 7"
    by (simp add: stub_driver_def)
  have c: "CommitTransaction ?d 7 (Some (SessionContext (Some Plain) 7)) [7] = (Some refused, [7])"
    by (simp add: stub_driver_def)
  have a: "AbortTransaction ?d 7 (Some (SessionContext (Some Plain) 7)) [7] = (None, [7])"
    by (simp add: stub_driver_def)
  have e: "EndSession ?d 7 (Some (SessionContext (Some Plain) 7)) [7] = []"
    by (simp add: stub_driver_def)
  show ?thesis
    using h1 MongoTx_finish_ends_session [OF h1, of "NewMongoTx 1 ''db''" "[7]", unfolded c a]
    by (simp add: e)
qed

text \<open>
  C10. When \<open>StartSession\<close> succeeds and \<open>StartTransaction\<close> fails, \<open>MongoTx.Ctx\<close> returns
  the \<^verbatim>\<open>nil\<close> context and the error wrapped with "error in starting transaction"; the
  driver calls made are \<open>StartSession\<close> and \<open>StartTransaction\<close>, so \<open>EndSession\<close> is not
  called on the session. A \<open>Run\<close> on this runner then makes no further driver call:
  neither \<open>Commit\<close> nor \<open>Rollback\<close> is reached, and the session stays open.
\<close>

theorem MongoTx_Ctx_leaves_session:
  assumes "StartSession d (client m) w = ((sess, None), w1)"
    and "StartTransaction d sess w1 = (Some err, w2)"
  shows "MongoTx_Ctx b (spy_driver d) m ctx (w, []) =
           ((None, Wrap b (Some err) ''error in starting transaction''), w2,
            [CallStartSession (client m), CallStartTransaction sess]) \<and>
         UoW_Run a (New (MongoTx_Runner b (spy_driver d) m)) ctx fn (w, []) =
           (Wrap a (Wrap b (Some err) ''error in starting transaction'') ''failed to start transaction'',
            w2, [CallStartSession (client m), CallStartTransaction sess])"
  using assms
  by (simp add: UoW_Run_def New_def MongoTx_Runner_def MongoTx_Ctx_def spy_driver_simps)

theorem MongoTx_Ctx_leaves_session_witness:
  "StartSession (stub_driver None (Some refused) None None) (client (NewMongoTx 1 ''db'')) [] =
     ((7, None), [7]) \<and>
   StartTransaction (stub_driver None (Some refused) None None) 7 [7] = (Some refused, [7]) \<and>
   MongoTx_Ctx 50 (spy_driver (stub_driver None (Some refused) None None)) (NewMongoTx 1 ''db'')
      (Some Plain) ([], []) =
     ((None, Some (WithStack 50 (WithMessage 50 refused ''error in starting transaction''))), [7],
      [CallStartSession 1, CallStartTransaction 7])"
proof -
  let ?d = "stub_driver None (Some refused) None None"
  have h1: "StartSession ?d (client (NewMongoTx 1 ''db'')) [] = ((7, None), [7])"
    by (simp add: stub_driver_def)
  have h2: "StartTransaction ?d 7 [7] = (Some refused, [7])"
    by (simp add: stub_driver_def)
  show ?thesis
    using h1 h2 MongoTx_Ctx_leaves_session
      [where b = 50 and a = 60 and ctx = "Some Plain" and fn = ok_fn, OF h1 h2]
    by (simp add: NewMongoTx_def)
qed

section \<open>The rollback scenario of the mock backend\<close>

text \<open>
  C9. With the mock backend, when the operation leaves the value of the shared state at
  "test state" and returns a sentinel error, the state's value after \<open>Run\<close> is
  "test state rolled back!" and the returned error matches the sentinel under
  \<open>errors_Is\<close>. A sentinel is a value that callers compare errors with, such as the
  test's \<open>ErrRollback\<close> made by \<^verbatim>\<open>errors.New\<close>: a value of a comparable type. The
  statement gives the match for every such value, and says that it is the comparable
  type that makes it hold.
\<close>

theorem MockTx_rollback_scenario:
  assumes "fn ctx h1 = (Some sentinel, h2)"
    and "State_Value (state mt) h2 = ''test state''"
  shows "UoW_Run a (New (MockTx_Runner mt)) ctx fn h1 = (Some sentinel, State_Rollback (state mt) h2) \<and>
         State_Value (state mt) (snd (UoW_Run a (New (MockTx_Runner mt)) ctx fn h1)) =
           ''test state rolled back!'' \<and>
         errors_Is (fst (UoW_Run a (New (MockTx_Runner mt)) ctx fn h1)) (Some sentinel) =
           comparable sentinel"
  using assms
  by (simp add: UoW_Run_def New_def MockTx_Runner_def MockTx_Ctx_def MockTx_Rollback_def
      State_Value_def State_Rollback_def chain_has_refl)

theorem MockTx_rollback_scenario_witness:
  "TestRollback_fn (New (MockTx_Runner (fst (NewMockTx \<lparr>cells = (\<lambda>p. \<lparr>State_value = []\<rparr>), brk = 0\<rparr>))))
      Background (snd (NewMockTx \<lparr>cells = (\<lambda>p. \<lparr>State_value = []\<rparr>), brk = 0\<rparr>)) =
     (Some ErrRollback,
      State_SetValue 0 ''test state'' (snd (NewMockTx \<lparr>cells = (\<lambda>p. \<lparr>State_value = []\<rparr>), brk = 0\<rparr>))) \<and>
   State_Value 0
      (State_SetValue 0 ''test state'' (snd (NewMockTx \<lparr>cells = (\<lambda>p. \<lparr>State_value = []\<rparr>), brk = 0\<rparr>))) =
     ''test state'' \<and>
   comparable ErrRollback \<and>
   TestRollback \<lparr>cells = (\<lambda>p. \<lparr>State_value = []\<rparr>), brk = 0\<rparr> = []"
proof -
  let ?h = "\<lparr>cells = (\<lambda>p. \<lparr>State_value = []\<rparr>), brk = 0\<rparr>"
  let ?mt = "fst (NewMockTx ?h)"
  let ?h1 = "snd (NewMockTx ?h)"
  let ?txs = "New (MockTx_Runner ?mt) :: (store, background, addr) UoW"
  have mt: "state ?mt = 0"
    by (simp add: NewMockTx_def)
  have h1: "TestRollback_fn ?txs Background ?h1 = (Some ErrRollback, State_SetValue 0 ''test state'' ?h1)"
    by (simp add: TestRollback_fn_def UoW_Get_def New_def MockTx_Runner_def MockTx_Get_def mt)
  have h2: "State_Value (state ?mt) (State_SetValue 0 ''test state'' ?h1) = ''test state''"
    by (simp add: State_Value_def State_SetValue_def mt)
  have h3: "comparable ErrRollback"
    by (simp add: ErrRollback_def)
  note run =
    MockTx_rollback_scenario [where a = "brk ?h1" and fn = "TestRollback_fn ?txs", OF h1 h2]
  have "TestRollback ?h = []"
    using run [THEN conjunct2] h3 by (simp add: TestRollback_def case_prod_beta)
  then show ?thesis
    using h1 h2 h3 by (simp add: mt)
qed

end
